theory Spec2Isabelle
  imports Complex_Main "HOL-Library.Char_ord" "HOL-Library.List_Lexorder"
begin

section \<open>Crop yield predictor: model provider and inference adapter of app.py\<close>

text \<open>
  The program is a Streamlit script. Its logic is \<^verbatim>\<open>get_model_data\<close> (lines 128-187), which
  loads the pickled artifact or downloads the dataset, trains and persists, and the
  prediction block (lines 241-276), which encodes the temperature input and assembles the
  feature row. Library calls whose results the script cannot determine (the download, the
  spreadsheet reader, the least-squares fit, the predictor, pickle) are parameters of the
  model; each may raise, so each returns a sum with the exception on the left.

  Floating-point numbers are an abstract type \<open>'f\<close>, a fitted regression object is \<open>'m\<close>,
  the bytes of a file are \<open>'b\<close>.
\<close>

subsection \<open>Python values\<close>

datatype error =
    ImportError
  | KeyError string
  | NotFittedError
  | ValueError
  | AttributeError
  | FileNotFoundError
  | OSError
  | LibraryError string

text \<open>A spreadsheet cell, and an element of the list literal handed to \<^verbatim>\<open>np.array\<close>.\<close>

datatype 'f cell = FloatCell 'f | IntCell int | StrCell string

text \<open>\<^verbatim>\<open>str(n)\<close> for a Python int: decimal digits, a minus sign for negatives.\<close>

definition digit_char :: "nat \<Rightarrow> char" where
  "digit_char d = ''0123456789'' ! d"

function str_nat :: "nat \<Rightarrow> string" where
  "str_nat n = (if n < 10 then [digit_char n] else str_nat (n div 10) @ [digit_char (n mod 10)])"
  by pat_completeness auto
termination
  by (relation "measure (\<lambda>n. n)") auto

definition str_int :: "int \<Rightarrow> string" where
  "str_int i = (if i < 0 then CHR ''-'' # str_nat (nat (- i)) else str_nat (nat i))"

subsection \<open>sklearn's LabelEncoder\<close>

text \<open>
  The encoder object carries the attribute \<^verbatim>\<open>classes_\<close> only after \<^verbatim>\<open>fit\<close>;
  \<open>None\<close> is the object as \<^verbatim>\<open>LabelEncoder()\<close> constructs it.
\<close>

datatype LabelEncoder = LabelEncoder (classes: "string list option")

fun index_of :: "'a list \<Rightarrow> 'a \<Rightarrow> nat option" where
  "index_of [] y = None"
| "index_of (x # xs) y = (if x = y then Some 0 else map_option Suc (index_of xs y))"

text \<open>
  \<^verbatim>\<open>fit_transform\<close>: the classes are the sorted distinct labels, each label is replaced by
  its position among them.
\<close>

definition fit_classes :: "string list \<Rightarrow> string list" where
  "fit_classes labels = sort (remdups labels)"

definition fit_transform :: "string list \<Rightarrow> LabelEncoder \<times> int list" where
  "fit_transform labels =
     (let cs = fit_classes labels
      in (LabelEncoder (Some cs), map (\<lambda>l. int (the (index_of cs l))) labels))"

text \<open>
  \<^verbatim>\<open>transform([s])[0]\<close>: \<^verbatim>\<open>NotFittedError\<close> from \<^verbatim>\<open>check_is_fitted\<close> on an unfitted
  encoder, \<^verbatim>\<open>ValueError\<close> for a label that is not among the classes.
\<close>

definition transform :: "LabelEncoder \<Rightarrow> string \<Rightarrow> error + int" where
  "transform enc s =
     (case classes enc of
        None \<Rightarrow> Inl NotFittedError
      | Some cs \<Rightarrow> (case index_of cs s of None \<Rightarrow> Inl ValueError | Some i \<Rightarrow> Inr (int i)))"

subsection \<open>The artifact\<close>

text \<open>
  The pickled object is a dict with string keys. Its values are the regression object, an
  encoder object, or \<^verbatim>\<open>None\<close>. The dict is an association list; \<^verbatim>\<open>data.get(k)\<close> is
  \<open>map_of\<close>.
\<close>

datatype 'm obj = ModelObj 'm | EncoderObj LabelEncoder | NoneObj

type_synonym 'm artifact = "(string \<times> 'm obj) list"

text \<open>
  Truth value of \<^verbatim>\<open>data.get("encoder_temp")\<close> in \<^verbatim>\<open>if temp_encoder:\<close>. Neither estimator
  class defines \<^verbatim>\<open>__bool__\<close> or \<^verbatim>\<open>__len__\<close>, so every estimator object is true, fitted or
  not; a missing key and \<^verbatim>\<open>None\<close> are false.
\<close>

fun truthy :: "'m obj option \<Rightarrow> bool" where
  "truthy None = False"
| "truthy (Some NoneObj) = False"
| "truthy (Some (ModelObj m)) = True"
| "truthy (Some (EncoderObj e)) = True"

text \<open>\<^verbatim>\<open>temp_encoder.transform(...)\<close> on whatever object the dict holds.\<close>

fun obj_transform :: "'m obj option \<Rightarrow> string \<Rightarrow> error + int" where
  "obj_transform (Some (EncoderObj e)) s = transform e s"
| "obj_transform _ s = Inl AttributeError"

subsection \<open>Inference adapter (lines 241-276)\<close>

record 'f user_input =
  rain :: 'f
  temp_input :: int
  fertilizer :: 'f
  nitrogen :: 'f
  phosphorus :: 'f
  potassium :: 'f
  predict_btn :: bool

text \<open>
  Lines 246-255. The bare \<^verbatim>\<open>except:\<close> turns every exception of \<^verbatim>\<open>transform\<close> into code 0.
\<close>

definition final_temp :: "'m obj option \<Rightarrow> int \<Rightarrow> int" where
  "final_temp temp_encoder t =
     (if truthy temp_encoder then
        (case obj_transform temp_encoder (str_int t) of
           Inr code \<Rightarrow> code
         | Inl e \<Rightarrow> 0)
      else t)"

text \<open>Line 259: the row handed to \<^verbatim>\<open>np.array\<close>.\<close>

definition inputs :: "'m obj option \<Rightarrow> 'f user_input \<Rightarrow> 'f cell list" where
  "inputs temp_encoder u =
     [FloatCell (rain u), FloatCell (fertilizer u), IntCell (final_temp temp_encoder (temp_input u)),
      FloatCell (nitrogen u), FloatCell (phosphorus u), FloatCell (potassium u)]"

subsection \<open>The table read from the spreadsheet\<close>

text \<open>
  A pandas frame: column labels and rows; a missing cell (NaN) is \<open>None\<close>. A row shorter
  than the header reads as missing beyond its end.
\<close>

record 'f dataframe =
  columns :: "string list"
  rows :: "'f cell option list list"

definition cell_at :: "'f cell option list \<Rightarrow> nat \<Rightarrow> 'f cell option" where
  "cell_at r i = (if i < length r then r ! i else None)"

text \<open>\<^verbatim>\<open>cy.dropna()\<close>: keep the rows without a missing cell in any column.\<close>

definition dropna :: "'f dataframe \<Rightarrow> 'f dataframe" where
  "dropna cy = cy\<lparr>rows := filter (\<lambda>r. None \<notin> set r) (rows cy)\<rparr>"

text \<open>\<^verbatim>\<open>cy[c]\<close> for one label and \<^verbatim>\<open>cy[[c1, ..., cn]]\<close> for a list: \<^verbatim>\<open>KeyError\<close> on a missing label.\<close>

definition column_values :: "'f dataframe \<Rightarrow> string \<Rightarrow> error + 'f cell option list" where
  "column_values cy c =
     (case index_of (columns cy) c of
        None \<Rightarrow> Inl (KeyError c)
      | Some i \<Rightarrow> Inr (map (\<lambda>r. cell_at r i) (rows cy)))"

definition col_cell :: "string list \<Rightarrow> 'f cell option list \<Rightarrow> string \<Rightarrow> 'f cell option" where
  "col_cell cols r c = (case index_of cols c of None \<Rightarrow> None | Some i \<Rightarrow> cell_at r i)"

definition select_columns :: "'f dataframe \<Rightarrow> string list \<Rightarrow> error + 'f cell option list list" where
  "select_columns cy cs =
     (case filter (\<lambda>c. c \<notin> set (columns cy)) cs of
        c # _ \<Rightarrow> Inl (KeyError c)
      | [] \<Rightarrow> Inr (map (\<lambda>r. map (col_cell (columns cy) r) cs) (rows cy)))"

subsection \<open>The environment of the script\<close>

text \<open>What an interrupted write leaves behind.\<close>

datatype 'b write_fault = OpenFails error | DumpFails 'b error

record ('f, 'm, 'b) env =
  import_kagglehub :: "error option"
  dataset_download :: "error + string"
  path_exists :: "string \<Rightarrow> bool"
  listdir :: "string \<Rightarrow> error + string list"
  read_excel :: "string \<Rightarrow> error + 'f dataframe"
  float_str :: "'f \<Rightarrow> string"
  fit :: "'f cell option list list \<Rightarrow> 'f cell option list \<Rightarrow> error + 'm"
  predict :: "'m \<Rightarrow> 'f cell list \<Rightarrow> error + 'f"
  pickle_dumps :: "'m artifact \<Rightarrow> 'b"
  pickle_loads :: "'b \<Rightarrow> error + 'm artifact"
  write_fault :: "'b write_fault option"

text \<open>The working directory: file name to contents.\<close>

type_synonym 'b files = "string \<Rightarrow> 'b option"

definition filename :: string where
  "filename = ''crop_yield_model.pkl''"

subsection \<open>First-time setup (lines 142-183)\<close>

text \<open>\<^verbatim>\<open>os.path.join\<close> of two components on POSIX.\<close>

definition path_join :: "string \<Rightarrow> string \<Rightarrow> string" where
  "path_join a b =
     (if b \<noteq> [] \<and> hd b = CHR ''/'' then b
      else if a = [] \<or> last a = CHR ''/'' then a @ b
      else a @ ''/'' @ b)"

definition endswith :: "string \<Rightarrow> string \<Rightarrow> bool" where
  "endswith s suf = (length suf \<le> length s \<and> drop (length s - length suf) s = suf)"

text \<open>
  Lines 147-154: the expected sheet, else the first \<^verbatim>\<open>.xlsx\<close> of the directory, else the
  expected path unchanged.
\<close>

definition locate_file :: "('f, 'm, 'b) env \<Rightarrow> string \<Rightarrow> error + string" where
  "locate_file env path =
     (let file_path = path_join path ''crop yield data sheet.xlsx''
      in if path_exists env file_path then Inr file_path
         else (case listdir env path of
                 Inl e \<Rightarrow> Inl e
               | Inr fs \<Rightarrow> (case filter (\<lambda>f. endswith f ''.xlsx'') fs of
                              [] \<Rightarrow> Inr file_path
                            | f # _ \<Rightarrow> Inr (path_join path f))))"

text \<open>Lines 143-158: import, download, locate, read, drop rows with missing values.\<close>

definition load_and_clean :: "('f, 'm, 'b) env \<Rightarrow> error + 'f dataframe" where
  "load_and_clean env =
     (case import_kagglehub env of
        Some e \<Rightarrow> Inl e
      | None \<Rightarrow>
     (case dataset_download env of
        Inl e \<Rightarrow> Inl e
      | Inr path \<Rightarrow>
     (case locate_file env path of
        Inl e \<Rightarrow> Inl e
      | Inr file_path \<Rightarrow>
     (case read_excel env file_path of
        Inl e \<Rightarrow> Inl e
      | Inr cy \<Rightarrow> Inr (dropna cy)))))"

text \<open>\<^verbatim>\<open>astype(str)\<close> on one cell; the text of a float is the library's.\<close>

definition cell_str :: "('f \<Rightarrow> string) \<Rightarrow> 'f cell option \<Rightarrow> string" where
  "cell_str fs c =
     (case c of
        None \<Rightarrow> ''nan''
      | Some (FloatCell x) \<Rightarrow> fs x
      | Some (IntCell i) \<Rightarrow> str_int i
      | Some (StrCell s) \<Rightarrow> s)"

text \<open>
  Lines 161-165. The encoder object is constructed in any case and fitted only when the
  column is there; the column is then replaced by its codes.
\<close>

definition encode_temperature ::
  "('f, 'm, 'b) env \<Rightarrow> 'f dataframe \<Rightarrow> LabelEncoder \<times> 'f dataframe" where
  "encode_temperature env cy =
     (case index_of (columns cy) ''Temperatue'' of
        None \<Rightarrow> (LabelEncoder None, cy)
      | Some i \<Rightarrow>
          (let labels = map (\<lambda>r. cell_str (float_str env) (cell_at r i)) (rows cy);
               (LE, codes) = fit_transform labels
           in (LE, cy\<lparr>rows := map2 (\<lambda>r c. r[i := Some (IntCell c)]) (rows cy) codes\<rparr>)))"

definition feature_columns :: "string list" where
  "feature_columns =
     [''Rain Fall (mm)'', ''Fertilizer'', ''Temperatue'', ''Nitrogen (N)'', ''Phosphorus (P)'',
      ''Potassium (K)'']"

text \<open>Lines 169-173: select the features and the target, fit the regression.\<close>

definition train :: "('f, 'm, 'b) env \<Rightarrow> 'f dataframe \<Rightarrow> error + 'm" where
  "train env cy =
     (case select_columns cy feature_columns of
        Inl e \<Rightarrow> Inl e
      | Inr ind \<Rightarrow>
     (case column_values cy ''Yeild (Q/acre)'' of
        Inl e \<Rightarrow> Inl e
      | Inr dep \<Rightarrow> fit env ind dep))"

text \<open>Lines 143-176: everything up to the dict \<^verbatim>\<open>data\<close>.\<close>

definition build_data :: "('f, 'm, 'b) env \<Rightarrow> error + 'm artifact" where
  "build_data env =
     (case load_and_clean env of
        Inl e \<Rightarrow> Inl e
      | Inr cy \<Rightarrow>
          (let (LE, cy') = encode_temperature env cy
           in (case train env cy' of
                 Inl e \<Rightarrow> Inl e
               | Inr LR \<Rightarrow> Inr [(''model'', ModelObj LR), (''encoder_temp'', EncoderObj LE)])))"

text \<open>
  Lines 177-178. \<^verbatim>\<open>open(filename, "wb")\<close> creates the file before \<^verbatim>\<open>pickle.dump\<close> writes
  to it, so a dump that raises leaves what had been written.
\<close>

definition save :: "('f, 'm, 'b) env \<Rightarrow> 'b files \<Rightarrow> 'm artifact \<Rightarrow> error option \<times> 'b files" where
  "save env fs data =
     (case write_fault env of
        None \<Rightarrow> (None, fs(filename \<mapsto> pickle_dumps env data))
      | Some (OpenFails e) \<Rightarrow> (Some e, fs)
      | Some (DumpFails part e) \<Rightarrow> (Some e, fs(filename \<mapsto> part)))"

text \<open>The body of the \<^verbatim>\<open>try\<close>.\<close>

definition first_time_setup ::
  "('f, 'm, 'b) env \<Rightarrow> 'b files \<Rightarrow> (error + 'm artifact) \<times> 'b files" where
  "first_time_setup env fs =
     (case build_data env of
        Inl e \<Rightarrow> (Inl e, fs)
      | Inr data \<Rightarrow>
          (case save env fs data of
             (Some e, fs') \<Rightarrow> (Inl e, fs')
           | (None, fs') \<Rightarrow> (Inr data, fs')))"

subsection \<open>The model provider (lines 128-187)\<close>

datatype message = FirstTimeSetupWarning | SystemReady | InitializationError error

datatype 'a outcome = Returned 'a | Raised error

text \<open>
  The result is the returned object (\<open>None\<close> is Python's \<^verbatim>\<open>None\<close>) or the exception that
  leaves the function, the files afterwards, and the status messages shown. The load
  branch is outside the \<^verbatim>\<open>try\<close>.
\<close>

definition get_model_data ::
  "('f, 'm, 'b) env \<Rightarrow> 'b files \<Rightarrow> 'm artifact option outcome \<times> 'b files \<times> message list" where
  "get_model_data env fs =
     (case fs filename of
        Some bytes \<Rightarrow>
          (case pickle_loads env bytes of
             Inl e \<Rightarrow> (Raised e, fs, [])
           | Inr data \<Rightarrow> (Returned (Some data), fs, []))
      | None \<Rightarrow>
          (case first_time_setup env fs of
             (Inr data, fs') \<Rightarrow> (Returned (Some data), fs', [FirstTimeSetupWarning, SystemReady])
           | (Inl e, fs') \<Rightarrow> (Returned None, fs', [FirstTimeSetupWarning, InitializationError e])))"

subsection \<open>The script (lines 189-286)\<close>

text \<open>
  \<^verbatim>\<open>st.cache_resource\<close> keeps the value a call returned, with the messages it showed, for the
  life of the process; a call that raised is not kept.
\<close>

record 'm process =
  cache :: "('m artifact option \<times> message list) option"

definition fresh_process :: "'m process" where
  "fresh_process = \<lparr>cache = None\<rparr>"

definition cached_get_model_data ::
  "('f, 'm, 'b) env \<Rightarrow> 'm process \<Rightarrow> 'b files
     \<Rightarrow> 'm artifact option outcome \<times> 'm process \<times> 'b files \<times> message list" where
  "cached_get_model_data env p fs =
     (case cache p of
        Some (v, msgs) \<Rightarrow> (Returned v, p, fs, msgs)
      | None \<Rightarrow>
          (case get_model_data env fs of
             (Returned v, fs', msgs) \<Rightarrow> (Returned v, p\<lparr>cache := Some (v, msgs)\<rparr>, fs', msgs)
           | (Raised e, fs', msgs) \<Rightarrow> (Raised e, p, fs', msgs)))"

datatype 'f display =
    Status message
  | Header
  | InputForm
  | PredictedYield 'f
  | CalculationError error
  | Footer
  | Uncaught error

text \<open>Lines 257-276: any exception of the prediction becomes a calculation error.\<close>

definition prediction :: "('f, 'm, 'b) env \<Rightarrow> 'm artifact \<Rightarrow> 'f user_input \<Rightarrow> 'f display" where
  "prediction env data u =
     (case map_of data ''model'' of
        Some (ModelObj m) \<Rightarrow>
          (case predict env m (inputs (map_of data ''encoder_temp'') u) of
             Inr y \<Rightarrow> PredictedYield y
           | Inl e \<Rightarrow> CalculationError e)
      | _ \<Rightarrow> CalculationError AttributeError)"

text \<open>
  Lines 194-286 for the value \<^verbatim>\<open>data\<close>. \<^verbatim>\<open>if data:\<close> is false for \<^verbatim>\<open>None\<close> and for an
  empty dict; \<^verbatim>\<open>data["model"]\<close> raises outside every \<^verbatim>\<open>try\<close>, which ends the run.
\<close>

definition page :: "('f, 'm, 'b) env \<Rightarrow> 'm artifact option \<Rightarrow> 'f user_input \<Rightarrow> 'f display list" where
  "page env data u =
     (case data of
        None \<Rightarrow> [Header, Footer]
      | Some [] \<Rightarrow> [Header, Footer]
      | Some d \<Rightarrow>
          (case map_of d ''model'' of
             None \<Rightarrow> [Header, Uncaught (KeyError ''model'')]
           | Some model \<Rightarrow>
               [Header, InputForm] @ (if predict_btn u then [prediction env d u] else []) @ [Footer]))"

definition run_script ::
  "('f, 'm, 'b) env \<Rightarrow> 'm process \<Rightarrow> 'b files \<Rightarrow> 'f user_input
     \<Rightarrow> 'm process \<times> 'b files \<times> 'f display list" where
  "run_script env p fs u =
     (case cached_get_model_data env p fs of
        (Raised e, p', fs', msgs) \<Rightarrow> (p', fs', map Status msgs @ [Uncaught e])
      | (Returned data, p', fs', msgs) \<Rightarrow> (p', fs', map Status msgs @ page env data u))"

text \<open>One process: the script runs once per interaction, each time in the world as it then is.\<close>

fun run_session ::
  "'m process \<Rightarrow> 'b files \<Rightarrow> (('f, 'm, 'b) env \<times> 'f user_input) list \<Rightarrow> 'f display list list" where
  "run_session p fs [] = []"
| "run_session p fs ((env, u) # rest) =
     (case run_script env p fs u of (p', fs', out) \<Rightarrow> out # run_session p' fs' rest)"

fun is_inference :: "'f display \<Rightarrow> bool" where
  "is_inference InputForm = True"
| "is_inference (PredictedYield y) = True"
| "is_inference (CalculationError e) = True"
| "is_inference _ = False"

subsection \<open>The feature order of the specification\<close>

text \<open>
  The six quantities of the fitted model in the order the specification fixes, the
  training column that holds each, and the value a request supplies for each.
\<close>

datatype quantity = Rainfall | Fertilizer | TemperatureCode | Nitrogen | Phosphorus | Potassium

definition spec_feature_order :: "quantity list" where
  "spec_feature_order = [Rainfall, Fertilizer, TemperatureCode, Nitrogen, Phosphorus, Potassium]"

fun training_column :: "quantity \<Rightarrow> string" where
  "training_column Rainfall = ''Rain Fall (mm)''"
| "training_column Fertilizer = ''Fertilizer''"
| "training_column TemperatureCode = ''Temperatue''"
| "training_column Nitrogen = ''Nitrogen (N)''"
| "training_column Phosphorus = ''Phosphorus (P)''"
| "training_column Potassium = ''Potassium (K)''"

fun request_value :: "'m obj option \<Rightarrow> 'f user_input \<Rightarrow> quantity \<Rightarrow> 'f cell" where
  "request_value enc u Rainfall = FloatCell (rain u)"
| "request_value enc u Fertilizer = FloatCell (fertilizer u)"
| "request_value enc u TemperatureCode = IntCell (final_temp enc (temp_input u))"
| "request_value enc u Nitrogen = FloatCell (nitrogen u)"
| "request_value enc u Phosphorus = FloatCell (phosphorus u)"
| "request_value enc u Potassium = FloatCell (potassium u)"

subsection \<open>Concrete scenarios\<close>

text \<open>
  A small world to run the definitions in: a sheet of three rows, one of them with a
  missing temperature; a fit that fails on an empty table and otherwise stands for its
  result by the number of samples; file contents that are the pickled dict, or \<open>None\<close>
  for a file cut short.
\<close>

definition sheet_columns :: "string list" where
  "sheet_columns =
     [''Rain Fall (mm)'', ''Fertilizer'', ''Temperatue'', ''Nitrogen (N)'', ''Phosphorus (P)'',
      ''Potassium (K)'', ''Yeild (Q/acre)'']"

definition row_a :: "real cell option list" where
  "row_a = [Some (FloatCell 1230), Some (FloatCell 80), Some (IntCell 28), Some (FloatCell 80),
            Some (FloatCell 24), Some (FloatCell 20), Some (FloatCell 12)]"

definition row_b :: "real cell option list" where
  "row_b = [Some (FloatCell 480), Some (FloatCell 60), Some (IntCell 36), Some (FloatCell 70),
            Some (FloatCell 20), Some (FloatCell 18), Some (FloatCell 8)]"

definition row_missing :: "real cell option list" where
  "row_missing = [Some (FloatCell 400), Some (FloatCell 60), None, Some (FloatCell 70),
                  Some (FloatCell 20), Some (FloatCell 18), Some (FloatCell 9)]"

definition example_sheet :: "real dataframe" where
  "example_sheet = \<lparr>columns = sheet_columns, rows = [row_a, row_missing, row_b]\<rparr>"

definition sheet_without_temperature :: "real dataframe" where
  "sheet_without_temperature =
     \<lparr>columns = [''Rain Fall (mm)'', ''Fertilizer'', ''Nitrogen (N)'', ''Phosphorus (P)'',
                 ''Potassium (K)'', ''Yeild (Q/acre)''],
      rows = [[Some (FloatCell 1230), Some (FloatCell 80), Some (FloatCell 80),
               Some (FloatCell 24), Some (FloatCell 20), Some (FloatCell 12)]]\<rparr>"

definition example_loads :: "nat artifact option \<Rightarrow> error + nat artifact" where
  "example_loads b = (case b of None \<Rightarrow> Inl (LibraryError ''EOFError'') | Some d \<Rightarrow> Inr d)"

definition example_fit ::
  "real cell option list list \<Rightarrow> real cell option list \<Rightarrow> error + nat" where
  "example_fit X y = (if X = [] then Inl ValueError else Inr (length X))"

definition example_env :: "(real, nat, nat artifact option) env" where
  "example_env =
     \<lparr>import_kagglehub = None,
      dataset_download = Inr ''/data'',
      path_exists = (\<lambda>p. p = ''/data/crop yield data sheet.xlsx''),
      listdir = (\<lambda>p. Inr [''crop yield data sheet.xlsx'']),
      read_excel = (\<lambda>p. Inr example_sheet),
      float_str = (\<lambda>x. ''?''),
      fit = example_fit,
      predict = (\<lambda>m x. Inr 0),
      pickle_dumps = Some,
      pickle_loads = example_loads,
      write_fault = None\<rparr>"

definition env_without_temperature :: "(real, nat, nat artifact option) env" where
  "env_without_temperature = example_env\<lparr>read_excel := (\<lambda>p. Inr sheet_without_temperature)\<rparr>"

definition env_download_fails :: "(real, nat, nat artifact option) env" where
  "env_download_fails = example_env\<lparr>dataset_download := Inl (LibraryError ''ConnectionError'')\<rparr>"

definition env_write_cut_short :: "(real, nat, nat artifact option) env" where
  "env_write_cut_short = example_env\<lparr>write_fault := Some (DumpFails None OSError)\<rparr>"

definition no_files :: "nat artifact option files" where
  "no_files = Map.empty"

definition example_data :: "nat artifact" where
  "example_data =
     [(''model'', ModelObj 2), (''encoder_temp'', EncoderObj (LabelEncoder (Some [''28'', ''36''])))]"

definition unfitted_data :: "nat artifact" where
  "unfitted_data = [(''model'', ModelObj 2), (''encoder_temp'', EncoderObj (LabelEncoder None))]"

definition example_request :: "real user_input" where
  "example_request =
     \<lparr>rain = 1200, temp_input = 28, fertilizer = 75, nitrogen = 80, phosphorus = 24,
      potassium = 20, predict_btn = True\<rparr>"

definition unseen_request :: "real user_input" where
  "unseen_request = example_request\<lparr>temp_input := 30\<rparr>"

section \<open>Properties\<close>

subsection \<open>Auxiliary facts about the definitions\<close>

lemma index_of_None_iff: "index_of xs y = None \<longleftrightarrow> y \<notin> set xs"
  by (induction xs) auto

lemma failed_setup:
  assumes "fs filename = None" and "first_time_setup env fs = (Inl e, fs')"
  shows "get_model_data env fs = (Returned None, fs', [FirstTimeSetupWarning, InitializationError e])"
  using assms by (simp add: get_model_data_def)

lemma cached_None_session:
  "cache p = Some (None, msgs) \<Longrightarrow> out \<in> set (run_session p fs runs) \<Longrightarrow> \<not> list_ex is_inference out"
proof (induction runs arbitrary: fs)
  case Nil
  then show ?case by simp
next
  case (Cons a runs)
  obtain env u where a: "a = (env, u)" by (cases a)
  from Cons.prems(1) have rs: "run_script env p fs u = (p, fs, map Status msgs @ page env None u)"
    by (simp add: run_script_def cached_get_model_data_def)
  have "\<not> list_ex is_inference (map Status msgs @ page env None u)"
    by (simp add: page_def list_ex_iff image_iff)
  with Cons a rs show ?case by auto
qed

lemma encode_temperature_absent:
  "''Temperatue'' \<notin> set (columns cy) \<Longrightarrow> encode_temperature env cy = (LabelEncoder None, cy)"
  by (simp add: encode_temperature_def index_of_None_iff[THEN iffD2])

lemma encode_temperature_columns: "columns (snd (encode_temperature env cy)) = columns cy"
  by (simp add: encode_temperature_def fit_transform_def Let_def split: option.splits)

lemma encode_temperature_fitted:
  "''Temperatue'' \<in> set (columns cy) \<Longrightarrow> \<exists>cs. fst (encode_temperature env cy) = LabelEncoder (Some cs)"
  by (cases "index_of (columns cy) ''Temperatue''")
     (simp_all add: encode_temperature_def fit_transform_def Let_def index_of_None_iff)

lemma select_columns_missing:
  assumes "c \<in> set cs" and "c \<notin> set (columns cy)"
  shows "\<exists>c'. select_columns cy cs = Inl (KeyError c') \<and> c' \<in> set cs \<and> c' \<notin> set (columns cy)"
proof (cases "filter (\<lambda>c. c \<notin> set (columns cy)) cs")
  case Nil
  then have "\<forall>x\<in>set cs. x \<in> set (columns cy)" by (simp add: filter_empty_conv)
  with assms show ?thesis by blast
next
  case (Cons c' rest)
  then have "c' \<in> set (filter (\<lambda>c. c \<notin> set (columns cy)) cs)" by simp
  then have "c' \<in> set cs \<and> c' \<notin> set (columns cy)" by simp
  with Cons show ?thesis by (simp add: select_columns_def)
qed

lemma select_columns_ok:
  "select_columns cy cs = Inr X \<Longrightarrow> set cs \<subseteq> set (columns cy)"
  by (cases "filter (\<lambda>c. c \<notin> set (columns cy)) cs")
     (auto simp: select_columns_def filter_empty_conv)

lemma train_missing_column:
  assumes "c \<in> set feature_columns" and "c \<notin> set (columns cy)"
  shows "\<exists>c'. train env cy = Inl (KeyError c') \<and> c' \<in> set feature_columns \<and> c' \<notin> set (columns cy)"
  using select_columns_missing[OF assms] by (auto simp: train_def)

lemma train_ok_columns:
  "train env cy = Inr LR \<Longrightarrow> set feature_columns \<subseteq> set (columns cy)"
  by (auto simp: train_def split: sum.splits dest: select_columns_ok)

lemma build_data_Inr:
  assumes "build_data env = Inr data"
  shows "\<exists>cy LR. load_and_clean env = Inr cy
          \<and> train env (snd (encode_temperature env cy)) = Inr LR
          \<and> data = [(''model'', ModelObj LR), (''encoder_temp'', EncoderObj (fst (encode_temperature env cy)))]"
  using assms by (auto simp: build_data_def split: sum.splits prod.splits)

lemma build_data_train_fails:
  assumes "load_and_clean env = Inr cy" and "train env (snd (encode_temperature env cy)) = Inl e"
  shows "build_data env = Inl e"
  using assms by (cases "encode_temperature env cy") (simp add: build_data_def)

lemma first_time_setup_build_fails:
  "build_data env = Inl e \<Longrightarrow> first_time_setup env fs = (Inl e, fs)"
  by (simp add: first_time_setup_def)

lemma first_time_setup_written:
  assumes "fs filename = None" and "snd (first_time_setup env fs) filename \<noteq> None"
  shows "\<exists>data. build_data env = Inr data"
  using assms by (cases "build_data env") (auto simp: first_time_setup_def)

lemma first_time_setup_Inr:
  assumes "first_time_setup env fs = (Inr data, fs')"
  shows "build_data env = Inr data \<and> fs' = fs(filename \<mapsto> pickle_dumps env data)"
  using assms
  by (auto simp: first_time_setup_def save_def split: sum.splits option.splits write_fault.splits)

lemma first_time_setup_Inl_unchanged:
  assumes "first_time_setup env fs = (Inl e, fs')" and "\<forall>part e'. write_fault env \<noteq> Some (DumpFails part e')"
  shows "fs' = fs"
  using assms
  by (auto simp: first_time_setup_def save_def split: sum.splits option.splits write_fault.splits)

lemma get_model_data_absent:
  "fs filename = None \<Longrightarrow> get_model_data env fs =
     (case first_time_setup env fs of
        (Inr data, fs') \<Rightarrow> (Returned (Some data), fs', [FirstTimeSetupWarning, SystemReady])
      | (Inl e, fs') \<Rightarrow> (Returned None, fs', [FirstTimeSetupWarning, InitializationError e]))"
  by (simp add: get_model_data_def)

lemma dropna_inject:
  "None \<in> set bad \<Longrightarrow> dropna \<lparr>columns = cs, rows = xs @ bad # ys\<rparr> = dropna \<lparr>columns = cs, rows = xs @ ys\<rparr>"
  by (simp add: dropna_def)

lemma load_and_clean_cong:
  assumes "\<And>q. map_sum id dropna (f q) = map_sum id dropna (g q)"
  shows "load_and_clean (env\<lparr>read_excel := f\<rparr>) = load_and_clean (env\<lparr>read_excel := g\<rparr>)"
proof -
  have loc: "\<And>h p. locate_file (env\<lparr>read_excel := h\<rparr>) p = locate_file env p"
    by (simp add: locate_file_def Let_def)
  have rd: "\<And>q. (case f q of Inl e \<Rightarrow> Inl e | Inr cy \<Rightarrow> Inr (dropna cy))
              = (case g q of Inl e \<Rightarrow> Inl e | Inr cy \<Rightarrow> Inr (dropna cy))"
  proof -
    fix q show "(case f q of Inl e \<Rightarrow> Inl e | Inr cy \<Rightarrow> Inr (dropna cy))
              = (case g q of Inl e \<Rightarrow> Inl e | Inr cy \<Rightarrow> Inr (dropna cy))"
      using assms[of q] by (cases "f q"; cases "g q") auto
  qed
  show ?thesis
    by (simp add: load_and_clean_def loc rd split: option.splits sum.splits)
qed

lemma build_data_read_excel:
  assumes "load_and_clean (env\<lparr>read_excel := f\<rparr>) = load_and_clean (env\<lparr>read_excel := g\<rparr>)"
  shows "build_data (env\<lparr>read_excel := f\<rparr>) = build_data (env\<lparr>read_excel := g\<rparr>)"
proof -
  have enc: "\<And>h cy. encode_temperature (env\<lparr>read_excel := h\<rparr>) cy = encode_temperature env cy"
    by (simp add: encode_temperature_def Let_def split: option.splits)
  have tr: "\<And>h cy. train (env\<lparr>read_excel := h\<rparr>) cy = train env cy"
    by (simp add: train_def split: sum.splits)
  show ?thesis by (simp add: build_data_def assms enc tr split: sum.splits prod.splits)
qed

lemma get_model_data_read_excel:
  assumes "build_data (env\<lparr>read_excel := f\<rparr>) = build_data (env\<lparr>read_excel := g\<rparr>)"
  shows "get_model_data (env\<lparr>read_excel := f\<rparr>) fs = get_model_data (env\<lparr>read_excel := g\<rparr>) fs"
proof -
  have sv: "\<And>h d. save (env\<lparr>read_excel := h\<rparr>) fs d = save env fs d"
    by (simp add: save_def split: option.splits write_fault.splits)
  have "first_time_setup (env\<lparr>read_excel := f\<rparr>) fs = first_time_setup (env\<lparr>read_excel := g\<rparr>) fs"
    by (simp add: first_time_setup_def assms sv split: sum.splits)
  then show ?thesis by (simp add: get_model_data_def split: option.splits)
qed

lemma read_excel_irrelevant_locate: "locate_file (env\<lparr>read_excel := h\<rparr>) p = locate_file env p"
  by (simp add: locate_file_def Let_def)

lemma falsy_encoder_passes_raw_temperature:
  "\<not> truthy temp_encoder \<Longrightarrow> final_temp temp_encoder t = t"
  by (simp add: final_temp_def)

lemma import_failure_fails_setup:
  "import_kagglehub env = Some e \<Longrightarrow> fst (first_time_setup env fs) = Inl e"
  by (simp add: first_time_setup_def build_data_def load_and_clean_def)

lemma download_failure_fails_setup:
  "import_kagglehub env = None \<Longrightarrow> dataset_download env = Inl e
     \<Longrightarrow> fst (first_time_setup env fs) = Inl e"
  by (simp add: first_time_setup_def build_data_def load_and_clean_def)

lemma column_mismatch_fails_setup:
  assumes "load_and_clean env = Inr cy" and "c \<in> set feature_columns" and "c \<notin> set (columns cy)"
  shows "\<exists>c'. fst (first_time_setup env fs) = Inl (KeyError c')"
proof -
  have "c \<notin> set (columns (snd (encode_temperature env cy)))"
    using assms(3) by (simp add: encode_temperature_columns)
  from train_missing_column[OF assms(2) this] obtain c' where
    "train env (snd (encode_temperature env cy)) = Inl (KeyError c')" by blast
  from build_data_train_fails[OF assms(1) this] show ?thesis
    by (auto simp: first_time_setup_build_fails)
qed

lemma fit_failure_fails_setup:
  assumes "load_and_clean env = Inr cy" and "train env (snd (encode_temperature env cy)) = Inl e"
  shows "fst (first_time_setup env fs) = Inl e"
  using build_data_train_fails[OF assms] by (simp add: first_time_setup_build_fails)

subsection \<open>The concrete scenarios, evaluated\<close>

lemma no_files_absent: "no_files filename = None"
  by (simp add: no_files_def)

lemma str_int_30: "str_int 30 = ''30''"
  by (simp add: str_int_def digit_char_def)

lemma example_locate: "locate_file example_env ''/data'' = Inr ''/data/crop yield data sheet.xlsx''"
  by (simp add: locate_file_def example_env_def path_join_def)

lemma example_load:
  "load_and_clean example_env = Inr \<lparr>columns = sheet_columns, rows = [row_a, row_b]\<rparr>"
proof -
  have "dropna example_sheet = \<lparr>columns = sheet_columns, rows = [row_a, row_b]\<rparr>"
    by (simp add: dropna_def example_sheet_def row_a_def row_b_def row_missing_def)
  moreover have "read_excel example_env ''/data/crop yield data sheet.xlsx'' = Inr example_sheet"
    "import_kagglehub example_env = None" "dataset_download example_env = Inr ''/data''"
    by (simp_all add: example_env_def)
  ultimately show ?thesis by (simp add: load_and_clean_def example_locate)
qed

lemma example_index: "index_of sheet_columns ''Temperatue'' = Some 2"
  by (simp add: sheet_columns_def)

lemma example_classes: "fit_transform [''28'', ''36''] = (LabelEncoder (Some [''28'', ''36'']), [0, 1])"
  by (simp add: fit_transform_def fit_classes_def)

lemma example_encode:
  "encode_temperature example_env \<lparr>columns = sheet_columns, rows = [row_a, row_b]\<rparr>
     = (LabelEncoder (Some [''28'', ''36'']),
        \<lparr>columns = sheet_columns, rows = [row_a[2 := Some (IntCell 0)], row_b[2 := Some (IntCell 1)]]\<rparr>)"
proof -
  have "map (\<lambda>r. cell_str (float_str example_env) (cell_at r 2)) [row_a, row_b] = [''28'', ''36'']"
    by (simp add: cell_str_def cell_at_def row_a_def row_b_def str_int_def digit_char_def)
  then show ?thesis
    by (simp add: encode_temperature_def example_index example_classes)
qed

lemma example_train:
  "train example_env \<lparr>columns = sheet_columns, rows = [r1, r2]\<rparr> = Inr 2"
proof -
  have f: "filter (\<lambda>c. c \<notin> set sheet_columns) feature_columns = []"
    by (simp add: sheet_columns_def feature_columns_def)
  have s: "select_columns \<lparr>columns = sheet_columns, rows = [r1, r2]\<rparr> feature_columns
      = Inr [map (col_cell sheet_columns r1) feature_columns, map (col_cell sheet_columns r2) feature_columns]"
    by (simp add: select_columns_def f)
  have "\<exists>y. column_values \<lparr>columns = sheet_columns, rows = [r1, r2]\<rparr> ''Yeild (Q/acre)'' = Inr y"
    by (simp add: column_values_def sheet_columns_def)
  then obtain y where c: "column_values \<lparr>columns = sheet_columns, rows = [r1, r2]\<rparr> ''Yeild (Q/acre)'' = Inr y"
    by blast
  show ?thesis by (simp add: train_def s c example_env_def example_fit_def)
qed

lemma example_build: "build_data example_env = Inr example_data"
  by (simp add: build_data_def example_load example_encode example_train example_data_def)

lemma example_save:
  "save example_env no_files d = (None, no_files(filename \<mapsto> Some d))"
  by (simp add: save_def example_env_def)

lemma example_setup:
  "first_time_setup example_env no_files = (Inr example_data, no_files(filename \<mapsto> Some example_data))"
  by (simp add: first_time_setup_def example_build example_save)

lemma example_get:
  "get_model_data example_env no_files
     = (Returned (Some example_data), no_files(filename \<mapsto> Some example_data), [FirstTimeSetupWarning, SystemReady])"
  by (simp add: get_model_data_absent no_files_absent example_setup)

lemma without_temperature_load:
  "load_and_clean env_without_temperature = Inr sheet_without_temperature"
proof -
  have d: "dropna sheet_without_temperature = sheet_without_temperature"
    by (simp add: dropna_def sheet_without_temperature_def)
  have loc: "locate_file env_without_temperature ''/data'' = Inr ''/data/crop yield data sheet.xlsx''"
    by (simp add: env_without_temperature_def read_excel_irrelevant_locate example_locate)
  have "import_kagglehub env_without_temperature = None"
    "dataset_download env_without_temperature = Inr ''/data''"
    "read_excel env_without_temperature ''/data/crop yield data sheet.xlsx'' = Inr sheet_without_temperature"
    by (simp_all add: env_without_temperature_def example_env_def)
  then show ?thesis by (simp add: load_and_clean_def loc d)
qed

lemma without_temperature_absent: "''Temperatue'' \<notin> set (columns sheet_without_temperature)"
  by (simp add: sheet_without_temperature_def)

lemma without_temperature_train:
  "train env sheet_without_temperature = Inl (KeyError ''Temperatue'')"
  by (simp add: train_def select_columns_def feature_columns_def sheet_without_temperature_def)

lemma download_fails_setup:
  "fst (first_time_setup env_download_fails no_files) = Inl (LibraryError ''ConnectionError'')"
  by (simp add: first_time_setup_def build_data_def load_and_clean_def env_download_fails_def example_env_def)

lemma cut_short_build: "build_data env_write_cut_short = Inr example_data"
proof -
  have "build_data env_write_cut_short = build_data example_env"
    by (simp add: build_data_def load_and_clean_def locate_file_def encode_temperature_def train_def
        env_write_cut_short_def Let_def split: option.splits sum.splits prod.splits)
  then show ?thesis by (simp add: example_build)
qed

lemma cut_short_get:
  "get_model_data env_write_cut_short no_files
     = (Returned None, no_files(filename \<mapsto> None), [FirstTimeSetupWarning, InitializationError OSError])"
proof -
  have "save env_write_cut_short no_files example_data = (Some OSError, no_files(filename \<mapsto> None))"
    by (simp add: save_def env_write_cut_short_def)
  then show ?thesis
    by (simp add: get_model_data_absent no_files_absent first_time_setup_def cut_short_build)
qed

lemma download_fails_get:
  "get_model_data env_download_fails no_files
     = (Returned None, no_files, [FirstTimeSetupWarning, InitializationError (LibraryError ''ConnectionError'')])"
proof -
  have "build_data env_download_fails = Inl (LibraryError ''ConnectionError'')"
    by (simp add: build_data_def load_and_clean_def env_download_fails_def example_env_def)
  then have "first_time_setup env_download_fails no_files = (Inl (LibraryError ''ConnectionError''), no_files)"
    by (rule first_time_setup_build_fails)
  then show ?thesis by (simp add: get_model_data_absent no_files_absent)
qed

subsection \<open>The claims\<close>

text \<open>
  C1, at the input where the program departs from it. The claim: when the encoder of the
  loaded artifact was never fitted, the third feature is the raw temperature. The artifact
  here holds an encoder object that was never fitted and the request has temperature 28:
  the object is true in \<^verbatim>\<open>if temp_encoder:\<close>, \<^verbatim>\<open>transform\<close> raises, the bare
  \<^verbatim>\<open>except\<close> answers 0, and the third feature is the code 0, not 28. The raw value is
  passed only when the dict holds no encoder object at all
  (\<open>falsy_encoder_passes_raw_temperature\<close>).
\<close>

theorem unfitted_encoder_gives_code_zero:
  "map_of unfitted_data ''encoder_temp'' = Some (EncoderObj (LabelEncoder None))
   \<and> temp_input example_request = 28
   \<and> inputs (map_of unfitted_data ''encoder_temp'') example_request
       = [FloatCell 1200, FloatCell 75, IntCell 0, FloatCell 80, FloatCell 24, FloatCell 20]"
  by (simp add: unfitted_data_def example_request_def inputs_def final_temp_def transform_def)

text \<open>
  C2, amended. The claim says that with the column \<^verbatim>\<open>Temperatue\<close> absent the encoding is
  skipped and training still produces a fitted model. The encoding is skipped indeed: the
  encoder stays unfitted and the table unchanged. But the feature selection of line 169
  names that column, so it raises \<^verbatim>\<open>KeyError\<close>; the provider reports the initialization
  error, returns \<^verbatim>\<open>None\<close> and writes no file.
\<close>

theorem absent_temperature_column_fails_setup:
  assumes "fs filename = None" and "load_and_clean env = Inr cy" and "''Temperatue'' \<notin> set (columns cy)"
  shows "encode_temperature env cy = (LabelEncoder None, cy)
     \<and> (\<exists>c. c \<in> set feature_columns \<and> c \<notin> set (columns cy)
          \<and> get_model_data env fs = (Returned None, fs, [FirstTimeSetupWarning, InitializationError (KeyError c)]))"
proof -
  have enc: "encode_temperature env cy = (LabelEncoder None, cy)"
    by (rule encode_temperature_absent[OF assms(3)])
  have "''Temperatue'' \<in> set feature_columns" by (simp add: feature_columns_def)
  from train_missing_column[OF this assms(3)] obtain c where
    c: "train env cy = Inl (KeyError c)" "c \<in> set feature_columns" "c \<notin> set (columns cy)" by blast
  have "build_data env = Inl (KeyError c)"
    using build_data_train_fails[OF assms(2)] enc c(1) by simp
  then have "first_time_setup env fs = (Inl (KeyError c), fs)"
    by (rule first_time_setup_build_fails)
  with assms(1) have "get_model_data env fs = (Returned None, fs, [FirstTimeSetupWarning, InitializationError (KeyError c)])"
    by (rule failed_setup)
  with enc c show ?thesis by blast
qed

theorem absent_temperature_column_fails_setup_witness:
  "no_files filename = None
   \<and> load_and_clean env_without_temperature = Inr sheet_without_temperature
   \<and> ''Temperatue'' \<notin> set (columns sheet_without_temperature)
   \<and> encode_temperature env_without_temperature sheet_without_temperature = (LabelEncoder None, sheet_without_temperature)
   \<and> (\<exists>c. c \<in> set feature_columns \<and> c \<notin> set (columns sheet_without_temperature)
          \<and> get_model_data env_without_temperature no_files
              = (Returned None, no_files, [FirstTimeSetupWarning, InitializationError (KeyError c)]))"
  using absent_temperature_column_fails_setup[where fs = no_files and env = env_without_temperature and cy = sheet_without_temperature]
    no_files_absent without_temperature_load without_temperature_absent by blast

text \<open>
  The claim as stated fails on a sheet without the column: no model is returned.
\<close>

theorem absent_temperature_column_no_model:
  "''Temperatue'' \<notin> set (columns sheet_without_temperature)
   \<and> load_and_clean env_without_temperature = Inr sheet_without_temperature
   \<and> get_model_data env_without_temperature no_files
       = (Returned None, no_files, [FirstTimeSetupWarning, InitializationError (KeyError ''Temperatue'')])"
proof -
  have "build_data env_without_temperature = Inl (KeyError ''Temperatue'')"
    by (simp add: build_data_def without_temperature_load
        encode_temperature_absent[OF without_temperature_absent] without_temperature_train)
  then have "first_time_setup env_without_temperature no_files = (Inl (KeyError ''Temperatue''), no_files)"
    by (rule first_time_setup_build_fails)
  then show ?thesis
    by (simp add: get_model_data_absent no_files_absent without_temperature_load without_temperature_absent)
qed

text \<open>
  C3. For a temperature whose string form is not among the classes of the fitted encoder,
  \<^verbatim>\<open>transform\<close> raises \<^verbatim>\<open>ValueError\<close>, the exception is caught, and the code in the
  feature row is 0.
\<close>

theorem unseen_temperature_uses_code_zero:
  assumes "classes enc = Some cs" and "str_int (temp_input u) \<notin> set cs"
  shows "obj_transform (Some (EncoderObj enc)) (str_int (temp_input u)) = Inl ValueError
    \<and> final_temp (Some (EncoderObj enc)) (temp_input u) = 0
    \<and> inputs (Some (EncoderObj enc)) u ! 2 = IntCell 0"
proof -
  from assms(2) have "index_of cs (str_int (temp_input u)) = None"
    by (simp add: index_of_None_iff)
  with assms(1) show ?thesis
    by (simp add: final_temp_def transform_def inputs_def)
qed

theorem unseen_temperature_uses_code_zero_witness:
  "classes (LabelEncoder (Some [''28'', ''36''])) = Some [''28'', ''36'']
   \<and> str_int (temp_input unseen_request) \<notin> set [''28'', ''36'']
   \<and> obj_transform (Some (EncoderObj (LabelEncoder (Some [''28'', ''36'']))) :: nat obj option) (str_int (temp_input unseen_request)) = Inl ValueError
   \<and> final_temp (Some (EncoderObj (LabelEncoder (Some [''28'', ''36'']))) :: nat obj option) (temp_input unseen_request) = 0
   \<and> inputs (Some (EncoderObj (LabelEncoder (Some [''28'', ''36'']))) :: nat obj option) unseen_request ! 2 = IntCell 0"
proof -
  have a: "classes (LabelEncoder (Some [''28'', ''36''])) = Some [''28'', ''36'']" by simp
  have b: "str_int (temp_input unseen_request) \<notin> set [''28'', ''36'']"
    by (simp add: unseen_request_def example_request_def str_int_30)
  show ?thesis using unseen_temperature_uses_code_zero[OF a b] a b by simp
qed

text \<open>
  C4. The row assembled at inference lists the six quantities in the order of the
  specification, and the columns selected at training are the columns of the same
  quantities in the same order.
\<close>

theorem inference_order_matches_training:
  "feature_columns = map training_column spec_feature_order
   \<and> inputs enc u = map (request_value enc u) spec_feature_order
   \<and> length (inputs enc u) = 6"
  by (simp add: feature_columns_def spec_feature_order_def inputs_def)

theorem inference_order_matches_training_witness:
  "inputs (map_of example_data ''encoder_temp'') example_request
     = [FloatCell 1200, FloatCell 75, IntCell 0, FloatCell 80, FloatCell 24, FloatCell 20]
   \<and> map (request_value (map_of example_data ''encoder_temp'') example_request) spec_feature_order
     = [FloatCell 1200, FloatCell 75, IntCell 0, FloatCell 80, FloatCell 24, FloatCell 20]"
proof -
  have "inputs (map_of example_data ''encoder_temp'') example_request
     = [FloatCell 1200, FloatCell 75, IntCell 0, FloatCell 80, FloatCell 24, FloatCell 20]"
    by (simp add: example_data_def example_request_def inputs_def final_temp_def transform_def
        str_int_def digit_char_def)
  then show ?thesis using inference_order_matches_training[of "map_of example_data ''encoder_temp''" example_request] by simp
qed

text \<open>
  C5. When the body of the \<^verbatim>\<open>try\<close> raises during first-time setup, whatever the cause
  (\<open>import_failure_fails_setup\<close>, \<open>download_failure_fails_setup\<close>,
  \<open>column_mismatch_fails_setup\<close>, \<open>fit_failure_fails_setup\<close>), the provider returns
  \<^verbatim>\<open>None\<close> and shows the initialization error, and no later run of the script in the
  same process reaches the input form or the prediction.
\<close>

theorem setup_failure_disables_inference:
  assumes "fs filename = None" and "fst (first_time_setup env fs) = Inl e"
  shows "fst (get_model_data env fs) = Returned None
     \<and> InitializationError e \<in> set (snd (snd (get_model_data env fs)))
     \<and> (\<forall>out \<in> set (run_session fresh_process fs ((env, u) # rest)). \<not> list_ex is_inference out)"
proof -
  obtain fs' where fts: "first_time_setup env fs = (Inl e, fs')"
    using assms(2) by (cases "first_time_setup env fs") auto
  have g: "get_model_data env fs = (Returned None, fs', [FirstTimeSetupWarning, InitializationError e])"
    by (rule failed_setup[OF assms(1) fts])
  let ?p = "fresh_process\<lparr>cache := Some (None, [FirstTimeSetupWarning, InitializationError e])\<rparr>"
  have rs: "run_script env fresh_process fs u
      = (?p, fs', map Status [FirstTimeSetupWarning, InitializationError e] @ page env None u)"
    by (simp add: run_script_def cached_get_model_data_def fresh_process_def g)
  have first: "\<not> list_ex is_inference (map Status [FirstTimeSetupWarning, InitializationError e] @ page env None u)"
    by (simp add: page_def)
  have later: "\<And>out. out \<in> set (run_session ?p fs' rest) \<Longrightarrow> \<not> list_ex is_inference out"
    by (rule cached_None_session[of ?p]) simp_all
  show ?thesis using g rs first later by auto
qed

theorem setup_failure_disables_inference_witness:
  "no_files filename = None
   \<and> fst (first_time_setup env_download_fails no_files) = Inl (LibraryError ''ConnectionError'')
   \<and> fst (get_model_data env_download_fails no_files) = Returned None
   \<and> InitializationError (LibraryError ''ConnectionError'') \<in> set (snd (snd (get_model_data env_download_fails no_files)))
   \<and> list_all (\<lambda>out. \<not> list_ex is_inference out)
        (run_session fresh_process no_files
          [(env_download_fails, example_request), (example_env, example_request), (example_env, unseen_request)])"
  using setup_failure_disables_inference[where fs = no_files and env = env_download_fails and e = "LibraryError ''ConnectionError''"
      and u = example_request and rest = "[(example_env, example_request), (example_env, unseen_request)]"]
    no_files_absent download_fails_setup unfolding list_all_iff by blast

text \<open>
  C6. When the file exists and unpickles, the provider returns the unpickled dict as it
  is, whatever it holds, shows no setup message and leaves the files alone; the result
  depends on nothing of the environment but the unpickler, so no download, read or fit
  takes part.
\<close>

theorem existing_artifact_returned_unvalidated:
  assumes "fs filename = Some bytes" and "pickle_loads env bytes = Inr data"
  shows "get_model_data env fs = (Returned (Some data), fs, [])
     \<and> (\<forall>env'. pickle_loads env' = pickle_loads env \<longrightarrow> get_model_data env' fs = get_model_data env fs)"
  using assms by (simp add: get_model_data_def)

theorem existing_artifact_returned_unvalidated_witness:
  "(no_files(filename \<mapsto> Some [(''junk'', NoneObj)])) filename = Some (Some [(''junk'', NoneObj)])
   \<and> pickle_loads example_env (Some [(''junk'', NoneObj)]) = Inr [(''junk'', NoneObj)]
   \<and> get_model_data example_env (no_files(filename \<mapsto> Some [(''junk'', NoneObj)]))
       = (Returned (Some [(''junk'', NoneObj)]), no_files(filename \<mapsto> Some [(''junk'', NoneObj)]), [])
   \<and> pickle_loads env_download_fails = pickle_loads example_env
   \<and> get_model_data env_download_fails (no_files(filename \<mapsto> Some [(''junk'', NoneObj)]))
       = get_model_data example_env (no_files(filename \<mapsto> Some [(''junk'', NoneObj)]))"
proof -
  have a: "(no_files(filename \<mapsto> Some [(''junk'', NoneObj)])) filename = Some (Some [(''junk'', NoneObj)])" by simp
  have b: "pickle_loads example_env (Some [(''junk'', NoneObj)]) = Inr [(''junk'', NoneObj)]"
    by (simp add: example_env_def example_loads_def)
  have c: "pickle_loads env_download_fails = pickle_loads example_env"
    by (simp add: env_download_fails_def)
  show ?thesis
    using existing_artifact_returned_unvalidated[where fs = "no_files(filename \<mapsto> Some [(''junk'', NoneObj)])" and env = example_env
        and bytes = "Some [(''junk'', NoneObj)]" and data = "[(''junk'', NoneObj)]"] a b c
    by blast
qed

text \<open>
  C7. Given that unpickling the pickled dict gives the dict back (the contract of the
  pickle library), a dict saved to the artifact file and loaded again by the provider is
  the same dict, so its encoder entry and every prediction made from it are the same.
\<close>

theorem persist_reload_same_predictions:
  assumes "pickle_loads env (pickle_dumps env data) = Inr data" and "save env fs data = (None, fs')"
  shows "\<exists>data'. get_model_data env fs' = (Returned (Some data'), fs', [])
      \<and> map_of data' ''encoder_temp'' = map_of data ''encoder_temp''
      \<and> (\<forall>u. prediction env data' u = prediction env data u)"
proof -
  from assms(2) have "fs' = fs(filename \<mapsto> pickle_dumps env data)"
    by (auto simp: save_def split: option.splits write_fault.splits)
  with assms(1) have "get_model_data env fs' = (Returned (Some data), fs', [])"
    by (simp add: get_model_data_def)
  then show ?thesis by blast
qed

theorem persist_reload_same_predictions_witness:
  "pickle_loads example_env (pickle_dumps example_env example_data) = Inr example_data
   \<and> save example_env no_files example_data = (None, no_files(filename \<mapsto> Some example_data))
   \<and> (\<exists>data'. get_model_data example_env (no_files(filename \<mapsto> Some example_data))
                 = (Returned (Some data'), no_files(filename \<mapsto> Some example_data), [])
      \<and> map_of data' ''encoder_temp'' = map_of example_data ''encoder_temp''
      \<and> (\<forall>u. prediction example_env data' u = prediction example_env example_data u))"
proof -
  have a: "pickle_loads example_env (pickle_dumps example_env example_data) = Inr example_data"
    by (simp add: example_env_def example_loads_def)
  show ?thesis
    using persist_reload_same_predictions[where env = example_env and data = example_data and fs = no_files
        and fs' = "no_files(filename \<mapsto> Some example_data)"] a example_save
    by blast
qed

text \<open>
  C8. A row with a missing cell is dropped by \<^verbatim>\<open>dropna\<close> before anything else sees the
  table: the cleaned table, and with it the whole result of the provider (fitted model,
  encoder, file written), is the same with the row as without it.
\<close>

theorem missing_value_row_has_no_influence:
  assumes "None \<in> set bad"
  shows "bad \<notin> set (rows (dropna \<lparr>columns = cs, rows = xs @ bad # ys\<rparr>))
     \<and> dropna \<lparr>columns = cs, rows = xs @ bad # ys\<rparr> = dropna \<lparr>columns = cs, rows = xs @ ys\<rparr>
     \<and> get_model_data (env\<lparr>read_excel := (read_excel env)(p := Inr \<lparr>columns = cs, rows = xs @ bad # ys\<rparr>)\<rparr>) fs
       = get_model_data (env\<lparr>read_excel := (read_excel env)(p := Inr \<lparr>columns = cs, rows = xs @ ys\<rparr>)\<rparr>) fs"
proof -
  have d: "dropna \<lparr>columns = cs, rows = xs @ bad # ys\<rparr> = dropna \<lparr>columns = cs, rows = xs @ ys\<rparr>"
    by (rule dropna_inject[OF assms])
  have "load_and_clean (env\<lparr>read_excel := (read_excel env)(p := Inr \<lparr>columns = cs, rows = xs @ bad # ys\<rparr>)\<rparr>)
      = load_and_clean (env\<lparr>read_excel := (read_excel env)(p := Inr \<lparr>columns = cs, rows = xs @ ys\<rparr>)\<rparr>)"
    by (rule load_and_clean_cong) (simp add: d)
  then have "get_model_data (env\<lparr>read_excel := (read_excel env)(p := Inr \<lparr>columns = cs, rows = xs @ bad # ys\<rparr>)\<rparr>) fs
       = get_model_data (env\<lparr>read_excel := (read_excel env)(p := Inr \<lparr>columns = cs, rows = xs @ ys\<rparr>)\<rparr>) fs"
    by (intro get_model_data_read_excel build_data_read_excel)
  moreover have "bad \<notin> set (rows (dropna \<lparr>columns = cs, rows = xs @ bad # ys\<rparr>))"
    using assms by (simp add: dropna_def)
  ultimately show ?thesis using d by simp
qed

theorem missing_value_row_has_no_influence_witness:
  "None \<in> set row_missing
   \<and> row_missing \<notin> set (rows (dropna \<lparr>columns = sheet_columns, rows = [row_a] @ row_missing # [row_b]\<rparr>))
   \<and> dropna \<lparr>columns = sheet_columns, rows = [row_a] @ row_missing # [row_b]\<rparr>
       = dropna \<lparr>columns = sheet_columns, rows = [row_a] @ [row_b]\<rparr>
   \<and> get_model_data (example_env\<lparr>read_excel := (read_excel example_env)(''/data/crop yield data sheet.xlsx'' := Inr \<lparr>columns = sheet_columns, rows = [row_a] @ row_missing # [row_b]\<rparr>)\<rparr>) no_files
     = get_model_data (example_env\<lparr>read_excel := (read_excel example_env)(''/data/crop yield data sheet.xlsx'' := Inr \<lparr>columns = sheet_columns, rows = [row_a] @ [row_b]\<rparr>)\<rparr>) no_files"
proof -
  have a: "None \<in> set row_missing" by (simp add: row_missing_def)
  show ?thesis
    using missing_value_row_has_no_influence[where bad = row_missing and cs = sheet_columns and xs = "[row_a]" and ys = "[row_b]"
        and env = example_env and p = "''/data/crop yield data sheet.xlsx''" and fs = no_files] a
    by blast
qed

text \<open>
  C9. When first-time setup returns a dict, the file holds the pickle of that dict, the
  encoder in it is fitted, and the table had the column \<^verbatim>\<open>Temperatue\<close>.
\<close>

theorem persisted_encoder_is_fitted:
  assumes "fs filename = None" and "get_model_data env fs = (Returned (Some data), fs', msgs)"
  shows "fs' filename = Some (pickle_dumps env data)
     \<and> (\<exists>cs. map_of data ''encoder_temp'' = Some (EncoderObj (LabelEncoder (Some cs))))
     \<and> (\<exists>cy. load_and_clean env = Inr cy \<and> ''Temperatue'' \<in> set (columns cy))"
proof -
  from assms have fts: "first_time_setup env fs = (Inr data, fs')"
    by (auto simp: get_model_data_absent split: prod.splits sum.splits)
  from first_time_setup_Inr[OF fts] have bd: "build_data env = Inr data"
    and fs': "fs' = fs(filename \<mapsto> pickle_dumps env data)" by simp_all
  from build_data_Inr[OF bd] obtain cy LR where
    cy: "load_and_clean env = Inr cy"
    and tr: "train env (snd (encode_temperature env cy)) = Inr LR"
    and d: "data = [(''model'', ModelObj LR), (''encoder_temp'', EncoderObj (fst (encode_temperature env cy)))]"
    by blast
  have "''Temperatue'' \<in> set feature_columns" by (simp add: feature_columns_def)
  with train_ok_columns[OF tr] have col: "''Temperatue'' \<in> set (columns cy)"
    by (auto simp: encode_temperature_columns)
  from encode_temperature_fitted[OF col] obtain cs where
    "fst (encode_temperature env cy) = LabelEncoder (Some cs)" by blast
  with d have "map_of data ''encoder_temp'' = Some (EncoderObj (LabelEncoder (Some cs)))" by simp
  with fs' cy col show ?thesis by auto
qed

theorem persisted_encoder_is_fitted_witness:
  "no_files filename = None
   \<and> get_model_data example_env no_files
       = (Returned (Some example_data), no_files(filename \<mapsto> Some example_data), [FirstTimeSetupWarning, SystemReady])
   \<and> (no_files(filename \<mapsto> Some example_data)) filename = Some (pickle_dumps example_env example_data)
   \<and> (\<exists>cs. map_of example_data ''encoder_temp'' = Some (EncoderObj (LabelEncoder (Some cs))))
   \<and> (\<exists>cy. load_and_clean example_env = Inr cy \<and> ''Temperatue'' \<in> set (columns cy))"
  using persisted_encoder_is_fitted[where fs = no_files and env = example_env and data = example_data
      and fs' = "no_files(filename \<mapsto> Some example_data)" and msgs = "[FirstTimeSetupWarning, SystemReady]"]
    no_files_absent example_get by blast

text \<open>
  C10, amended. The claim says that no initialization failure leaves an artifact file. A
  file appears only after the data dict was built, that is after a successful fit; and a
  failure that is not a dump cut short leaves the files as they were, so that the next
  start of the program runs first-time setup again. The exception is the write itself:
  \<^verbatim>\<open>open(filename, "wb")\<close> creates the file, and a \<^verbatim>\<open>pickle.dump\<close> that then raises is
  reported as an initialization error with the file left behind.
\<close>

theorem failure_before_write_leaves_no_artifact:
  assumes "fs filename = None"
  shows "(fst (snd (get_model_data env fs)) filename \<noteq> None \<longrightarrow> (\<exists>data. build_data env = Inr data))
     \<and> (fst (get_model_data env fs) = Returned None
          \<and> (\<forall>part e. write_fault env \<noteq> Some (DumpFails part e))
        \<longrightarrow> fst (snd (get_model_data env fs)) = fs
          \<and> (\<forall>env2. get_model_data env2 (fst (snd (get_model_data env fs))) =
                (case first_time_setup env2 fs of
                   (Inr data, fs') \<Rightarrow> (Returned (Some data), fs', [FirstTimeSetupWarning, SystemReady])
                 | (Inl e, fs') \<Rightarrow> (Returned None, fs', [FirstTimeSetupWarning, InitializationError e]))))"
proof (intro conjI impI)
  assume "fst (snd (get_model_data env fs)) filename \<noteq> None"
  then have "snd (first_time_setup env fs) filename \<noteq> None"
    using assms by (auto simp: get_model_data_absent split: prod.splits sum.splits)
  with assms show "\<exists>data. build_data env = Inr data"
    using first_time_setup_written[of fs env] by blast
next
  assume a: "fst (get_model_data env fs) = Returned None
          \<and> (\<forall>part e. write_fault env \<noteq> Some (DumpFails part e))"
  then obtain e fs' where fts: "first_time_setup env fs = (Inl e, fs')"
    using assms by (auto simp: get_model_data_absent split: prod.splits sum.splits)
  from first_time_setup_Inl_unchanged[OF fts] a have "fs' = fs" by blast
  with fts assms have same: "fst (snd (get_model_data env fs)) = fs"
    by (simp add: get_model_data_absent)
  show "fst (snd (get_model_data env fs)) = fs" by (rule same)
  show "\<forall>env2. get_model_data env2 (fst (snd (get_model_data env fs))) =
                (case first_time_setup env2 fs of
                   (Inr data, fs') \<Rightarrow> (Returned (Some data), fs', [FirstTimeSetupWarning, SystemReady])
                 | (Inl e, fs') \<Rightarrow> (Returned None, fs', [FirstTimeSetupWarning, InitializationError e]))"
    unfolding same using assms by (simp add: get_model_data_absent)
qed

theorem failure_before_write_leaves_no_artifact_witness:
  "no_files filename = None
   \<and> fst (snd (get_model_data example_env no_files)) filename \<noteq> None
   \<and> (\<exists>data. build_data example_env = Inr data)
   \<and> fst (get_model_data env_download_fails no_files) = Returned None
   \<and> (\<forall>part e. write_fault env_download_fails \<noteq> Some (DumpFails part e))
   \<and> fst (snd (get_model_data env_download_fails no_files)) = no_files
   \<and> get_model_data example_env (fst (snd (get_model_data env_download_fails no_files)))
       = (Returned (Some example_data), no_files(filename \<mapsto> Some example_data), [FirstTimeSetupWarning, SystemReady])"
proof -
  have a: "fst (snd (get_model_data example_env no_files)) filename \<noteq> None"
    by (simp add: example_get)
  have b: "fst (get_model_data env_download_fails no_files) = Returned None"
    by (simp add: download_fails_get)
  have c: "\<forall>part e. write_fault env_download_fails \<noteq> Some (DumpFails part e)"
    by (simp add: env_download_fails_def example_env_def)
  from failure_before_write_leaves_no_artifact[where fs = no_files and env = example_env] no_files_absent a have "\<exists>data. build_data example_env = Inr data" by blast
  moreover from failure_before_write_leaves_no_artifact[where fs = no_files and env = env_download_fails] no_files_absent b c
  have "fst (snd (get_model_data env_download_fails no_files)) = no_files" by blast
  ultimately show ?thesis using a b c no_files_absent example_get by simp
qed

text \<open>
  The claim as stated fails when the dump is cut short: the provider reports the failure, the
  file exists, and the next start raises from the unpickler instead of training again.
\<close>

theorem write_cut_short_leaves_file:
  "no_files filename = None
   \<and> fst (get_model_data env_write_cut_short no_files) = Returned None
   \<and> fst (snd (get_model_data env_write_cut_short no_files)) filename = Some None
   \<and> get_model_data example_env (fst (snd (get_model_data env_write_cut_short no_files)))
       = (Raised (LibraryError ''EOFError''), no_files(filename \<mapsto> None), [])"
proof -
  have fs': "fst (snd (get_model_data env_write_cut_short no_files)) = no_files(filename \<mapsto> None)"
    by (simp add: cut_short_get)
  have load: "get_model_data example_env (no_files(filename \<mapsto> None))
       = (Raised (LibraryError ''EOFError''), no_files(filename \<mapsto> None), [])"
    by (simp add: get_model_data_def example_env_def example_loads_def)
  show ?thesis unfolding fs' by (simp add: cut_short_get no_files_absent load)
qed

end
